theory Spec2Isabelle
  imports Main "HOL-Library.Multiset"
begin

section \<open>The registrations table\<close>

text \<open>
  The store is one SQL table, \<^verbatim>\<open>registrations\<close>, created at startup
  (\<^verbatim>\<open>src/api/index.js\<close>, lines 86-99). A row is a record with the table's
  columns: \<^verbatim>\<open>id INTEGER PRIMARY KEY AUTOINCREMENT\<close>, four \<^verbatim>\<open>TEXT NOT NULL\<close>
  columns, two \<^verbatim>\<open>INTEGER NOT NULL\<close> columns, the nullable \<^verbatim>\<open>stripe_session_id TEXT\<close>,
  \<^verbatim>\<open>payment_status TEXT DEFAULT 'pending'\<close> and \<^verbatim>\<open>created_at\<close>. The status is kept as
  the text the code writes and compares (\<open>''pending''\<close>, \<open>''paid''\<close>), a timestamp as a
  number of seconds. The column \<^verbatim>\<open>id\<close> is named \<open>id_col\<close> here.
\<close>

record registration =
  id_col :: nat
  first_name :: string
  last_name :: string
  email :: string
  phone :: string
  num_tickets :: int
  total_amount :: int
  stripe_session_id :: "string option"
  payment_status :: string
  created_at :: nat

text \<open>
  The table is the list of its rows in insertion order, with the counter that
  \<^verbatim>\<open>AUTOINCREMENT\<close> keeps (the largest id ever issued).
\<close>

record table =
  rows :: "registration list"
  seq :: nat

text \<open>
  \<^verbatim>\<open>let db = null; if (process.env.TURSO_DATABASE_URL) { db = createClient(...) }\<close>:
  the client is \<open>None\<close> when no store is configured, and \<^verbatim>\<open>db.execute\<close> then throws. A
  configured store is modelled as executing every statement it is given. What a handler
  does without a store is part of its definition below; a statement about the
  registrations a request creates or finds is made on a store with a table \<open>t\<close>.
\<close>

type_synonym db = "table option"

definition TICKET_PRICE :: int where
  "TICKET_PRICE = 5000"

subsection \<open>The four SQL statements of the program\<close>

text \<open>
  \<^verbatim>\<open>INSERT INTO registrations (first_name, last_name, email, phone, num_tickets,
  total_amount, payment_status) VALUES (?, ?, ?, ?, ?, ?, 'pending')\<close>. The new id is one
  more than the largest id that ever was in the table; \<open>stripe_session_id\<close> is NULL and
  \<open>created_at\<close> the current timestamp. The statement returns \<open>lastInsertRowid\<close>.
\<close>

definition insert_registration ::
  "string \<Rightarrow> string \<Rightarrow> string \<Rightarrow> string \<Rightarrow> int \<Rightarrow> int \<Rightarrow> nat \<Rightarrow> table \<Rightarrow> nat \<times> table" where
  "insert_registration fname lname mail tel tickets totalAmount now t =
     (let rid = Suc (fold max (map id_col (rows t)) (seq t)) in
      (rid,
       \<lparr>rows = rows t @
          [\<lparr>id_col = rid, first_name = fname, last_name = lname, email = mail, phone = tel,
            num_tickets = tickets, total_amount = totalAmount, stripe_session_id = None,
            payment_status = ''pending'', created_at = now\<rparr>],
        seq = rid\<rparr>))"

text \<open>\<^verbatim>\<open>UPDATE registrations SET stripe_session_id = ? WHERE id = ?\<close>\<close>

definition update_session_id :: "string \<Rightarrow> nat \<Rightarrow> table \<Rightarrow> table" where
  "update_session_id sid rid t =
     t\<lparr>rows := map (\<lambda>r. if id_col r = rid then r\<lparr>stripe_session_id := Some sid\<rparr> else r) (rows t)\<rparr>"

text \<open>
  \<^verbatim>\<open>UPDATE registrations SET payment_status = ? WHERE stripe_session_id = ?\<close>: the
  paid-transition is this statement with the arguments \<^verbatim>\<open>['paid', session id]\<close>. A row
  whose \<open>stripe_session_id\<close> is NULL matches no key.
\<close>

definition update_payment_status :: "string \<Rightarrow> string \<Rightarrow> table \<Rightarrow> table" where
  "update_payment_status status sid t =
     t\<lparr>rows := map (\<lambda>r. if stripe_session_id r = Some sid then r\<lparr>payment_status := status\<rparr> else r) (rows t)\<rparr>"

text \<open>
  \<^verbatim>\<open>SELECT * FROM registrations ORDER BY created_at DESC\<close>. SQL leaves the order of rows
  with equal timestamps open; here they come newest insertion first.
\<close>

definition select_all :: "table \<Rightarrow> registration list" where
  "select_all t = rev (sort_key created_at (rows t))"

definition registrations :: "db \<Rightarrow> registration list" where
  "registrations d = (case d of None \<Rightarrow> [] | Some t \<Rightarrow> rows t)"

section \<open>JavaScript values\<close>

text \<open>
  A value that is a string or \<^verbatim>\<open>undefined\<close> (a form field, a header, a query parameter,
  an environment variable) is a \<open>string option\<close>. \<open>truthy\<close> is JavaScript's test
  \<^verbatim>\<open>if (v)\<close> on such a value: \<^verbatim>\<open>undefined\<close> and the empty string are falsy.
  \<open>or_else v d\<close> is \<^verbatim>\<open>v || d\<close>, and \<open>template v\<close> what a template literal prints.
\<close>

definition truthy :: "string option \<Rightarrow> bool" where
  "truthy v = (case v of None \<Rightarrow> False | Some s \<Rightarrow> s \<noteq> [])"

definition or_else :: "string option \<Rightarrow> string \<Rightarrow> string" where
  "or_else v d = (case v of None \<Rightarrow> d | Some s \<Rightarrow> if s = [] then d else s)"

definition template :: "string option \<Rightarrow> string" where
  "template v = (case v of None \<Rightarrow> ''undefined'' | Some s \<Rightarrow> s)"

subsection \<open>\<^verbatim>\<open>parseInt(string, 10)\<close>\<close>

text \<open>
  ECMAScript's \<^verbatim>\<open>parseInt\<close> with radix 10: leading white space is skipped, one sign
  is read, then the longest run of decimal digits; the rest of the string is ignored.
  No digit gives \<^verbatim>\<open>NaN\<close>, here \<open>None\<close>. The result is a mathematical integer: the
  program only compares it with 1 and 20 and uses it when it lies between them, where
  JavaScript's numbers are exact. Characters are the 8-bit characters of \<open>string\<close>, so
  the white space is TAB, LF, VT, FF, CR, SPACE and NBSP.
\<close>

definition is_white_space :: "char \<Rightarrow> bool" where
  "is_white_space c = (of_char c \<in> {9, 10, 11, 12, 13, 32, 160 :: nat})"

definition is_digit :: "char \<Rightarrow> bool" where
  "is_digit c = (48 \<le> (of_char c :: nat) \<and> (of_char c :: nat) \<le> 57)"

definition digit_value :: "char \<Rightarrow> nat" where
  "digit_value c = of_char c - 48"

definition decimal_value :: "string \<Rightarrow> nat" where
  "decimal_value ds = foldl (\<lambda>acc c. 10 * acc + digit_value c) 0 ds"

definition parseInt10 :: "string \<Rightarrow> int option" where
  "parseInt10 s =
     (let s1 = dropWhile is_white_space s;
          sign = (if s1 \<noteq> [] \<and> hd s1 = CHR ''-'' then - 1 else 1 :: int);
          s2 = (if s1 \<noteq> [] \<and> (hd s1 = CHR ''+'' \<or> hd s1 = CHR ''-'') then tl s1 else s1);
          z = takeWhile is_digit s2
      in if z = [] then None else Some (sign * int (decimal_value z)))"

subsection \<open>\<^verbatim>\<open>String.prototype.split\<close> on a one-character separator\<close>

fun split_on :: "char \<Rightarrow> string \<Rightarrow> string list" where
  "split_on c [] = [[]]"
| "split_on c (x # xs) =
     (if x = c then [] # split_on c xs
      else (case split_on c xs of [] \<Rightarrow> [[x]] | y # ys \<Rightarrow> (x # y) # ys))"

subsection \<open>\<^verbatim>\<open>BigInt.prototype.toString\<close>\<close>

function decimal :: "nat \<Rightarrow> string" where
  "decimal n = (if n < 10 then [char_of (48 + n)] else decimal (n div 10) @ [char_of (48 + n mod 10)])"
  by pat_completeness auto
termination
  by (relation "measure id") auto

declare decimal.simps [simp del]

section \<open>Configuration and collaborators\<close>

text \<open>The variables of \<^verbatim>\<open>process.env\<close> that the handlers and the startup code read.\<close>

record environment =
  TURSO_DATABASE_URL :: "string option"
  STRIPE_WEBHOOK_SECRET :: "string option"
  ADMIN_USER :: "string option"
  ADMIN_PASSWORD :: "string option"

text \<open>
  What the payment provider's client returns. An event is read at \<^verbatim>\<open>event.type\<close> and
  \<^verbatim>\<open>event.data.object.id\<close>; a session at \<^verbatim>\<open>id\<close>, \<^verbatim>\<open>url\<close> and
  \<^verbatim>\<open>payment_status\<close>.
\<close>

record event =
  event_type :: string
  data_object_id :: string

record session =
  session_id :: string
  session_url :: string
  session_payment_status :: string

text \<open>
  The argument of \<^verbatim>\<open>stripe.checkout.sessions.create\<close>, without its constant fields
  (payment method, currency, product name and description, mode).
\<close>

record create_params =
  customer_email :: string
  unit_amount :: int
  quantity :: int
  success_url :: string
  cancel_url :: string
  metadata :: "(string \<times> string) list"

text \<open>
  The collaborators as one request sees them: a call either returns (\<open>Inr\<close>) or throws an
  error with a message (\<open>Inl\<close>). \<open>constructEvent body sig secret\<close> is
  \<^verbatim>\<open>stripe.webhooks.constructEvent\<close>; \<open>base64_ascii\<close> is Node's
  \<^verbatim>\<open>Buffer.from(s, 'base64').toString('ascii')\<close>; \<open>CURRENT_TIMESTAMP\<close> is the store's clock.
\<close>

record services =
  constructEvent :: "string \<Rightarrow> string option \<Rightarrow> string \<Rightarrow> string + event"
  sessions_create :: "create_params \<Rightarrow> string + session"
  sessions_retrieve :: "string \<Rightarrow> string + session"
  base64_ascii :: "string \<Rightarrow> string"
  CURRENT_TIMESTAMP :: nat

section \<open>Responses\<close>

text \<open>
  \<open>Page p\<close> stands for \<^verbatim>\<open>wrapInWpShell(title, p)\<close>, the page \<open>p\<close> in the site's shell;
  \<open>AdminHtml\<close> for the admin template filled with the rows and the three totals.
  \<open>Response status headers content\<close> is \<^verbatim>\<open>res.status(status).send(content)\<close> with the
  headers the handler set; \<open>Unhandled\<close> is a handler whose promise is rejected before it
  wrote a response.
\<close>

datatype page = HOME_CONTENT | SUCCESS_CONTENT | CANCEL_CONTENT

datatype content =
    Text string
  | Page page
  | Json "(string \<times> bool) list"
  | AdminHtml "registration list" nat int int

datatype response =
    Response nat "(string \<times> string) list" content
  | Redirect nat string
  | Unhandled

datatype provider_call = SessionsCreate create_params | SessionsRetrieve string

record outcome =
  response :: response
  db_after :: db
  queries :: "provider_call list"

definition received :: response where
  "received = Response 200 [] (Json [(''received'', True)])"

section \<open>The handlers\<close>

subsection \<open>\<^verbatim>\<open>POST /webhook\<close>\<close>

record webhook_request =
  raw_body :: string
  stripe_signature :: "string option"

definition post_webhook :: "environment \<Rightarrow> services \<Rightarrow> webhook_request \<Rightarrow> db \<Rightarrow> outcome" where
  "post_webhook env sv req d =
     (let sig = stripe_signature req; webhookSecret = STRIPE_WEBHOOK_SECRET env in
      if \<not> truthy webhookSecret then
        \<lparr>response = Response 400 [] (Text ''Webhook secret not configured''), db_after = d, queries = []\<rparr>
      else
        (case constructEvent sv (raw_body req) sig (template webhookSecret) of
           Inl message \<Rightarrow>
             \<lparr>response = Response 400 [] (Text (''Webhook Error: '' @ message)), db_after = d, queries = []\<rparr>
         | Inr event \<Rightarrow>
             if event_type event = ''checkout.session.completed'' then
               (case d of
                  None \<Rightarrow> \<lparr>response = Unhandled, db_after = None, queries = []\<rparr>
                | Some t \<Rightarrow>
                    \<lparr>response = received,
                     db_after = Some (update_payment_status ''paid'' (data_object_id event) t),
                     queries = []\<rparr>)
             else \<lparr>response = received, db_after = d, queries = []\<rparr>))"

subsection \<open>\<^verbatim>\<open>GET /success\<close>\<close>

text \<open>
  The request is its query parameter \<^verbatim>\<open>session_id\<close>. Everything inside the
  \<^verbatim>\<open>try\<close> that throws (the provider's query, \<^verbatim>\<open>db.execute\<close> on a missing store) ends in
  the \<^verbatim>\<open>catch\<close>, which only logs.
\<close>

definition get_success :: "services \<Rightarrow> string option \<Rightarrow> db \<Rightarrow> outcome" where
  "get_success sv sessionId d =
     (if truthy sessionId then
        (case sessions_retrieve sv (template sessionId) of
           Inl err \<Rightarrow>
             \<lparr>response = Response 200 [] (Page SUCCESS_CONTENT), db_after = d,
              queries = [SessionsRetrieve (template sessionId)]\<rparr>
         | Inr session \<Rightarrow>
             \<lparr>response = Response 200 [] (Page SUCCESS_CONTENT),
              db_after =
                (if session_payment_status session = ''paid'' then
                   (case d of
                      None \<Rightarrow> None
                    | Some t \<Rightarrow> Some (update_payment_status ''paid'' (template sessionId) t))
                 else d),
              queries = [SessionsRetrieve (template sessionId)]\<rparr>)
      else \<lparr>response = Response 200 [] (Page SUCCESS_CONTENT), db_after = d, queries = []\<rparr>)"

subsection \<open>\<^verbatim>\<open>POST /create-checkout-session\<close>\<close>

text \<open>
  The form-encoded body is a map from field names to strings (a missing field is
  \<^verbatim>\<open>undefined\<close>); the handler reads five of its fields and nothing else of it. The whole
  handler runs in a \<^verbatim>\<open>try\<close> whose \<^verbatim>\<open>catch\<close> answers 500: \<^verbatim>\<open>db.execute\<close> on a
  missing store and a failing \<^verbatim>\<open>stripe.checkout.sessions.create\<close> end there, the
  second one after the row was inserted.
\<close>

record checkout_request =
  body :: "string \<rightharpoonup> string"
  headers :: "string \<rightharpoonup> string"
  protocol :: string

definition server_error :: response where
  "server_error = Response 500 [] (Text ''Something went wrong. Please try again.'')"

definition post_create_checkout_session :: "services \<Rightarrow> checkout_request \<Rightarrow> db \<Rightarrow> outcome" where
  "post_create_checkout_session sv req d =
     (let first_name' = body req ''first_name'';
          last_name' = body req ''last_name'';
          email' = body req ''email'';
          phone' = body req ''phone'';
          num_tickets' = body req ''num_tickets''
      in
      if \<not> truthy first_name' \<or> \<not> truthy last_name' \<or> \<not> truthy email' \<or> \<not> truthy phone'
         \<or> \<not> truthy num_tickets' then
        \<lparr>response = Response 400 [] (Text ''All fields are required.''), db_after = d, queries = []\<rparr>
      else
        (case parseInt10 (template num_tickets') of
           None \<Rightarrow>
             \<lparr>response = Response 400 [] (Text ''Please select between 1 and 20 tickets.''),
              db_after = d, queries = []\<rparr>
         | Some tickets \<Rightarrow>
             if tickets < 1 \<or> tickets > 20 then
               \<lparr>response = Response 400 [] (Text ''Please select between 1 and 20 tickets.''),
                db_after = d, queries = []\<rparr>
             else
               (let totalAmount = tickets * TICKET_PRICE in
                case d of
                  None \<Rightarrow> \<lparr>response = server_error, db_after = None, queries = []\<rparr>
                | Some t \<Rightarrow>
                    (let result = insert_registration (template first_name') (template last_name')
                                    (template email') (template phone') tickets totalAmount
                                    (CURRENT_TIMESTAMP sv) t;
                         registrationId = fst result;
                         proto = or_else (headers req ''x-forwarded-proto'') (protocol req);
                         host = (if truthy (headers req ''x-forwarded-host'')
                                 then headers req ''x-forwarded-host'' else headers req ''host'');
                         params =
                           \<lparr>customer_email = template email',
                            unit_amount = TICKET_PRICE,
                            quantity = tickets,
                            success_url = proto @ ''://'' @ template host
                                          @ ''/success?session_id={CHECKOUT_SESSION_ID}'',
                            cancel_url = proto @ ''://'' @ template host @ ''/cancel'',
                            metadata = [(''registration_id'', decimal registrationId),
                                        (''first_name'', template first_name'),
                                        (''last_name'', template last_name')]\<rparr>
                     in
                     case sessions_create sv params of
                       Inl err \<Rightarrow>
                         \<lparr>response = server_error, db_after = Some (snd result),
                          queries = [SessionsCreate params]\<rparr>
                     | Inr session \<Rightarrow>
                         \<lparr>response = Redirect 303 (session_url session),
                          db_after = Some (update_session_id (session_id session) registrationId (snd result)),
                          queries = [SessionsCreate params]\<rparr>))))"

subsection \<open>\<^verbatim>\<open>GET /admin\<close>\<close>

text \<open>
  \<open>at xs i\<close> is JavaScript's \<^verbatim>\<open>xs[i]\<close>: \<^verbatim>\<open>undefined\<close> out of range. The request is its
  \<^verbatim>\<open>Authorization\<close> header. \<^verbatim>\<open>Buffer.from(undefined, 'base64')\<close> throws, and so does
  \<^verbatim>\<open>db.execute\<close> on a missing store; this handler has no \<^verbatim>\<open>try\<close>.
\<close>

definition at :: "'a list \<Rightarrow> nat \<Rightarrow> 'a option" where
  "at xs i = (if i < length xs then Some (xs ! i) else None)"

definition challenge :: "string \<Rightarrow> response" where
  "challenge message =
     Response 401 [(''WWW-Authenticate'', ''Basic realm='' @ [CHR 0x22] @ ''MWS Admin'' @ [CHR 0x22])]
       (Text message)"

definition get_admin :: "environment \<Rightarrow> services \<Rightarrow> string option \<Rightarrow> db \<Rightarrow> outcome" where
  "get_admin env sv authHeader d =
     (let adminUser = or_else (ADMIN_USER env) ''admin'';
          adminPass = or_else (ADMIN_PASSWORD env) ''admin''
      in
      if \<not> truthy authHeader \<or> take 6 (template authHeader) \<noteq> ''Basic '' then
        \<lparr>response = challenge ''Authentication required'', db_after = d, queries = []\<rparr>
      else
        (case at (split_on CHR '' '' (template authHeader)) 1 of
           None \<Rightarrow> \<lparr>response = Unhandled, db_after = d, queries = []\<rparr>
         | Some base64Credentials \<Rightarrow>
             (let credentials = base64_ascii sv base64Credentials;
                  user = at (split_on CHR '':'' credentials) 0;
                  pass = at (split_on CHR '':'' credentials) 1
              in
              if user \<noteq> Some adminUser \<or> pass \<noteq> Some adminPass then
                \<lparr>response = challenge ''Invalid credentials'', db_after = d, queries = []\<rparr>
              else
                (case d of
                   None \<Rightarrow> \<lparr>response = Unhandled, db_after = None, queries = []\<rparr>
                 | Some t \<Rightarrow>
                     (let registrations' = select_all t;
                          totalRegistrations = length registrations';
                          paidRegistrations = filter (\<lambda>r. payment_status r = ''paid'') registrations';
                          totalTicketsSold = foldl (\<lambda>sum r. sum + num_tickets r) 0 paidRegistrations;
                          totalRevenue = foldl (\<lambda>sum r. sum + total_amount r) 0 paidRegistrations
                      in
                      \<lparr>response = Response 200 []
                         (AdminHtml registrations' totalRegistrations totalTicketsSold totalRevenue),
                       db_after = d, queries = []\<rparr>)))))"

subsection \<open>The pages without side effects, and the dispatch\<close>

definition get_home :: "db \<Rightarrow> outcome" where
  "get_home d = \<lparr>response = Response 200 [] (Page HOME_CONTENT), db_after = d, queries = []\<rparr>"

definition get_cancel :: "db \<Rightarrow> outcome" where
  "get_cancel d = \<lparr>response = Response 200 [] (Page CANCEL_CONTENT), db_after = d, queries = []\<rparr>"

datatype request =
    POST_webhook webhook_request
  | POST_create_checkout_session checkout_request
  | GET_success "string option"
  | GET_cancel
  | GET_home
  | GET_admin "string option"

fun handle :: "environment \<Rightarrow> services \<Rightarrow> request \<Rightarrow> db \<Rightarrow> outcome" where
  "handle env sv (POST_webhook req) d = post_webhook env sv req d"
| "handle env sv (POST_create_checkout_session req) d = post_create_checkout_session sv req d"
| "handle env sv (GET_success sessionId) d = get_success sv sessionId d"
| "handle env sv GET_cancel d = get_cancel d"
| "handle env sv GET_home d = get_home d"
| "handle env sv (GET_admin authHeader) d = get_admin env sv authHeader d"

section \<open>The states the system reaches\<close>

text \<open>
  At startup the store is missing, or the table is empty (\<^verbatim>\<open>CREATE TABLE IF NOT EXISTS\<close>
  keeps the rows of an earlier run, which that run reached from the empty table). Every
  request is handled with whatever the collaborators answer at that moment.
\<close>

definition startup :: "environment \<Rightarrow> db" where
  "startup env = (if truthy (TURSO_DATABASE_URL env) then Some \<lparr>rows = [], seq = 0\<rparr> else None)"

inductive reachable :: "environment \<Rightarrow> db \<Rightarrow> bool" for env :: environment where
  start: "reachable env (startup env)"
| request: "reachable env d \<Longrightarrow> reachable env (db_after (handle env sv req d))"

section \<open>The spec's words, and concrete inputs\<close>

text \<open>
  The spec's "non-empty after trimming": \<open>trim\<close> is \<^verbatim>\<open>String.prototype.trim\<close>. The
  program never calls it; it is used only to state what the spec asks for.
\<close>

definition trim :: "string \<Rightarrow> string" where
  "trim s = rev (dropWhile is_white_space (rev (dropWhile is_white_space s)))"

text \<open>
  A base64 decoder for concrete requests: the characters up to the first \<^verbatim>\<open>=\<close> that
  belong to the alphabet, four sextets to three bytes, each byte printed as the ASCII
  character of its low seven bits. The theorems below hold for every \<open>base64_ascii\<close>.
\<close>

definition base64_index :: "char \<Rightarrow> nat option" where
  "base64_index c =
     (let n = (of_char c :: nat) in
      if 65 \<le> n \<and> n \<le> 90 then Some (n - 65)
      else if 97 \<le> n \<and> n \<le> 122 then Some (n - 71)
      else if 48 \<le> n \<and> n \<le> 57 then Some (n + 4)
      else if n = 43 \<or> n = 45 then Some 62
      else if n = 47 \<or> n = 95 then Some 63
      else None)"

fun sextets_bytes :: "nat list \<Rightarrow> nat list" where
  "sextets_bytes (a # b # c # d # rest) =
     (a * 4 + b div 16) # ((b mod 16) * 16 + c div 4) # ((c mod 4) * 64 + d) # sextets_bytes rest"
| "sextets_bytes [a, b, c] = [a * 4 + b div 16, (b mod 16) * 16 + c div 4]"
| "sextets_bytes [a, b] = [a * 4 + b div 16]"
| "sextets_bytes _ = []"

definition node_base64_ascii :: "string \<Rightarrow> string" where
  "node_base64_ascii s =
     map (\<lambda>b. char_of (b mod 128))
       (sextets_bytes (List.map_filter base64_index (takeWhile (\<lambda>c. c \<noteq> CHR ''='') s)))"

text \<open>
  A provider for concrete runs: an event is verified when the signature header repeats
  the secret, its kind is the raw body and its session is \<open>S123\<close>; every checkout
  session is \<open>S123\<close>, and the provider reports it paid.
\<close>

definition S123 :: session where
  "S123 = \<lparr>session_id = ''S123'', session_url = ''https://checkout.example/S123'',
           session_payment_status = ''paid''\<rparr>"

definition demo_services :: services where
  "demo_services =
     \<lparr>constructEvent = (\<lambda>payload sig secret.
          if sig = Some secret then Inr \<lparr>event_type = payload, data_object_id = ''S123''\<rparr>
          else Inl ''signature mismatch''),
      sessions_create = (\<lambda>params. Inr S123),
      sessions_retrieve = (\<lambda>sid. if sid = ''S123'' then Inr S123 else Inl ''No such checkout.session''),
      base64_ascii = node_base64_ascii,
      CURRENT_TIMESTAMP = 1000\<rparr>"

definition demo_environment :: environment where
  "demo_environment =
     \<lparr>TURSO_DATABASE_URL = Some ''libsql://demo'', STRIPE_WEBHOOK_SECRET = Some ''whsec'',
      ADMIN_USER = None, ADMIN_PASSWORD = None\<rparr>"

definition empty_table :: table where
  "empty_table = \<lparr>rows = [], seq = 0\<rparr>"

definition purchase :: "string \<Rightarrow> string \<Rightarrow> checkout_request" where
  "purchase fname tickets =
     \<lparr>body = [''first_name'' \<mapsto> fname, ''last_name'' \<mapsto> ''Doe'', ''email'' \<mapsto> ''jane@example.com'',
              ''phone'' \<mapsto> ''555-0100'', ''num_tickets'' \<mapsto> tickets],
      headers = [''host'' \<mapsto> ''tickets.example''],
      protocol = ''https''\<rparr>"

definition jane :: "string \<Rightarrow> int \<Rightarrow> string option \<Rightarrow> string \<Rightarrow> registration" where
  "jane fname tickets sid status =
     \<lparr>id_col = 1, first_name = fname, last_name = ''Doe'', email = ''jane@example.com'',
      phone = ''555-0100'', num_tickets = tickets, total_amount = tickets * 5000,
      stripe_session_id = sid, payment_status = status, created_at = 1000\<rparr>"

definition completed :: webhook_request where
  "completed = \<lparr>raw_body = ''checkout.session.completed'', stripe_signature = Some ''whsec''\<rparr>"

definition forged :: webhook_request where
  "forged = \<lparr>raw_body = ''checkout.session.completed'', stripe_signature = Some ''forged''\<rparr>"

text \<open>An environment with a password of its own and no user name.\<close>

definition password_only :: environment where
  "password_only =
     \<lparr>TURSO_DATABASE_URL = Some ''libsql://demo'', STRIPE_WEBHOOK_SECRET = Some ''whsec'',
      ADMIN_USER = None, ADMIN_PASSWORD = Some ''s3cret''\<rparr>"

text \<open>An environment without \<^verbatim>\<open>TURSO_DATABASE_URL\<close>: the webhook secret is set, the store is not.\<close>

definition no_store :: environment where
  "no_store =
     \<lparr>TURSO_DATABASE_URL = None, STRIPE_WEBHOOK_SECRET = Some ''whsec'',
      ADMIN_USER = None, ADMIN_PASSWORD = None\<rparr>"

definition two_rows :: table where
  "two_rows =
     \<lparr>rows = [jane ''Jane'' 3 (Some ''S123'') ''paid'',
              (jane ''June'' 2 None ''pending'')\<lparr>id_col := 2, created_at := 2000\<rparr>],
      seq = 2\<rparr>"

text \<open>
  What one request does to the rows: nothing, the paid-transition for one session
  identifier, or one new row. Used to state what the handlers have in common.
\<close>

datatype effect = Unchanged | Paid string | Created registration

fun apply_effect :: "effect \<Rightarrow> registration list \<Rightarrow> registration list" where
  "apply_effect Unchanged xs = xs"
| "apply_effect (Paid S) xs =
     map (\<lambda>r. if stripe_session_id r = Some S then r\<lparr>payment_status := ''paid''\<rparr> else r) xs"
| "apply_effect (Created r) xs = xs @ [r]"

text \<open>What holds of a row when the program inserts it.\<close>

definition new_row :: "registration \<Rightarrow> bool" where
  "new_row r \<longleftrightarrow>
     payment_status r = ''pending'' \<and> total_amount r = num_tickets r * TICKET_PRICE
     \<and> 1 \<le> num_tickets r \<and> num_tickets r \<le> 20"

section \<open>The statements and the new identifier\<close>

lemma update_payment_status_twice:
  "update_payment_status st S (update_payment_status st S t) = update_payment_status st S t"
  by (simp add: update_payment_status_def comp_def)

lemma update_paid_noop:
  assumes "\<forall>r\<in>set (rows t). stripe_session_id r = Some S \<longrightarrow> payment_status r = ''paid''"
  shows "update_payment_status ''paid'' S t = t"
proof -
  have "map (\<lambda>r. if stripe_session_id r = Some S then r\<lparr>payment_status := ''paid''\<rparr> else r) (rows t)
        = rows t"
    using assms by (intro map_idI) auto
  then show ?thesis
    by (simp add: update_payment_status_def)
qed

lemma fold_max_lower: "(a::nat) \<le> fold max xs a"
  by (induction xs arbitrary: a) (auto intro: order_trans [OF max.cobounded2])

lemma fold_max_upper: "x \<in> set xs \<Longrightarrow> (x::nat) \<le> fold max xs a"
proof (induction xs arbitrary: a)
  case Nil
  then show ?case by simp
next
  case (Cons y ys)
  show ?case
  proof (cases "x = y")
    case True
    have "y \<le> max y a" by simp
    also have "\<dots> \<le> fold max ys (max y a)" by (rule fold_max_lower)
    finally show ?thesis using True by simp
  next
    case False
    with Cons.prems have "x \<in> set ys" by simp
    then show ?thesis using Cons.IH by simp
  qed
qed

lemma insert_id_fresh:
  assumes "r \<in> set (rows t)"
  shows "id_col r \<noteq> fst (insert_registration fname lname mail tel k amount now t)"
proof -
  have "id_col r \<in> set (map id_col (rows t))" using assms by simp
  then have "id_col r \<le> fold max (map id_col (rows t)) (seq t)" by (rule fold_max_upper)
  then show ?thesis by (simp add: insert_registration_def Let_def)
qed

lemma rows_insert:
  "rows (snd (insert_registration fname lname mail tel k amount now t)) =
     rows t @ [\<lparr>id_col = fst (insert_registration fname lname mail tel k amount now t),
                first_name = fname, last_name = lname, email = mail, phone = tel,
                num_tickets = k, total_amount = amount, stripe_session_id = None,
                payment_status = ''pending'', created_at = now\<rparr>]"
  by (simp add: insert_registration_def Let_def)

lemma rows_update_session_id_insert:
  "rows (update_session_id sid (fst (insert_registration fname lname mail tel k amount now t))
          (snd (insert_registration fname lname mail tel k amount now t))) =
     rows t @ [\<lparr>id_col = fst (insert_registration fname lname mail tel k amount now t),
                first_name = fname, last_name = lname, email = mail, phone = tel,
                num_tickets = k, total_amount = amount, stripe_session_id = Some sid,
                payment_status = ''pending'', created_at = now\<rparr>]"
proof -
  let ?rid = "fst (insert_registration fname lname mail tel k amount now t)"
  have "map (\<lambda>r. if id_col r = ?rid then r\<lparr>stripe_session_id := Some sid\<rparr> else r) (rows t) = rows t"
    by (rule map_idI) (simp add: insert_id_fresh)
  then show ?thesis
    by (simp add: update_session_id_def rows_insert)
qed

section \<open>What each handler does to the rows\<close>

lemma webhook_db:
  "db_after (post_webhook env sv req d) = d
   \<or> (\<exists>S. db_after (post_webhook env sv req d) = map_option (update_payment_status ''paid'' S) d)"
  by (auto simp: post_webhook_def Let_def split: sum.splits option.splits)

lemma success_db:
  "db_after (get_success sv q d) = d
   \<or> db_after (get_success sv q d) = map_option (update_payment_status ''paid'' (template q)) d"
  by (auto simp: get_success_def split: sum.splits option.splits)

lemma registrations_paid:
  "registrations (map_option (update_payment_status ''paid'' S) d) = apply_effect (Paid S) (registrations d)"
  by (cases d) (simp_all add: registrations_def update_payment_status_def)

lemma webhook_effect:
  "\<exists>e. registrations (db_after (post_webhook env sv req d)) = apply_effect e (registrations d)
       \<and> (\<forall>r. e = Created r \<longrightarrow> new_row r)"
  using webhook_db [of env sv req d]
proof (elim disjE exE)
  assume "db_after (post_webhook env sv req d) = d"
  then show ?thesis by (intro exI [of _ Unchanged]) simp
next
  fix S
  assume "db_after (post_webhook env sv req d) = map_option (update_payment_status ''paid'' S) d"
  then show ?thesis by (intro exI [of _ "Paid S"]) (simp add: registrations_paid)
qed

lemma success_effect:
  "\<exists>e. registrations (db_after (get_success sv q d)) = apply_effect e (registrations d)
       \<and> (\<forall>r. e = Created r \<longrightarrow> new_row r)"
  using success_db [of sv q d]
proof (elim disjE)
  assume "db_after (get_success sv q d) = d"
  then show ?thesis by (intro exI [of _ Unchanged]) simp
next
  assume "db_after (get_success sv q d) = map_option (update_payment_status ''paid'' (template q)) d"
  then show ?thesis by (intro exI [of _ "Paid (template q)"]) (simp add: registrations_paid)
qed

lemma checkout_db:
  "db_after (post_create_checkout_session sv req d) = d
   \<or> (\<exists>t r. d = Some t \<and> new_row r
        \<and> registrations (db_after (post_create_checkout_session sv req d)) = rows t @ [r])"
  by (auto simp: post_create_checkout_session_def Let_def registrations_def rows_insert
        rows_update_session_id_insert new_row_def
      split: sum.splits option.splits)

lemma checkout_effect:
  "\<exists>e. registrations (db_after (post_create_checkout_session sv req d)) = apply_effect e (registrations d)
       \<and> (\<forall>r. e = Created r \<longrightarrow> new_row r)"
  using checkout_db [of sv req d]
proof (elim disjE exE conjE)
  assume "db_after (post_create_checkout_session sv req d) = d"
  then show ?thesis by (intro exI [of _ Unchanged]) simp
next
  fix t r
  assume "d = Some t" "new_row r"
    "registrations (db_after (post_create_checkout_session sv req d)) = rows t @ [r]"
  then show ?thesis by (intro exI [of _ "Created r"]) (simp add: registrations_def)
qed

lemma admin_unchanged: "db_after (get_admin env sv h d) = d"
  by (simp add: get_admin_def Let_def split: option.splits)

lemma handle_effect:
  "\<exists>e. registrations (db_after (handle env sv req d)) = apply_effect e (registrations d)
       \<and> (\<forall>r. e = Created r \<longrightarrow> new_row r)"
proof (cases req)
  case (POST_webhook x)
  then show ?thesis using webhook_effect by simp
next
  case (POST_create_checkout_session x)
  then show ?thesis using checkout_effect by simp
next
  case (GET_success x)
  then show ?thesis using success_effect by simp
next
  case GET_cancel
  then show ?thesis by (intro exI [of _ Unchanged]) (simp add: get_cancel_def)
next
  case GET_home
  then show ?thesis by (intro exI [of _ Unchanged]) (simp add: get_home_def)
next
  case (GET_admin x)
  then show ?thesis by (intro exI [of _ Unchanged]) (simp add: admin_unchanged)
qed


lemma effect_statuses:
  assumes "\<forall>r\<in>set xs. payment_status r = ''pending'' \<or> payment_status r = ''paid''"
    and "\<forall>r. e = Created r \<longrightarrow> new_row r"
  shows "\<forall>r\<in>set (apply_effect e xs). payment_status r = ''pending'' \<or> payment_status r = ''paid''"
  using assms by (cases e) (auto simp: new_row_def)

lemma effect_length: "length xs \<le> length (apply_effect e xs)"
  by (cases e) auto

lemma effect_old:
  assumes "i < length xs"
  shows "id_col (apply_effect e xs ! i) = id_col (xs ! i)
       \<and> (payment_status (apply_effect e xs ! i) = payment_status (xs ! i)
          \<or> payment_status (apply_effect e xs ! i) = ''paid'')"
  using assms by (cases e) (auto simp: nth_append)

lemma effect_new:
  assumes "length xs \<le> i" "i < length (apply_effect e xs)"
    and "\<forall>r. e = Created r \<longrightarrow> new_row r"
  shows "payment_status (apply_effect e xs ! i) = ''pending''"
  using assms by (cases e) (auto simp: nth_append new_row_def)

lemma reachable_statuses:
  "reachable env d \<Longrightarrow> \<forall>r\<in>set (registrations d). payment_status r = ''pending'' \<or> payment_status r = ''paid''"
proof (induction rule: reachable.induct)
  case start
  show ?case by (simp add: startup_def registrations_def empty_table_def)
next
  case (request d sv req)
  obtain e where e: "registrations (db_after (handle env sv req d)) = apply_effect e (registrations d)"
      "\<forall>r. e = Created r \<longrightarrow> new_row r"
    using handle_effect by blast
  show ?case
    unfolding e(1) using request.IH e(2) by (rule effect_statuses)
qed

lemma effect_totals:
  assumes "\<forall>r\<in>set xs. total_amount r = num_tickets r * TICKET_PRICE \<and> 1 \<le> num_tickets r \<and> num_tickets r \<le> 20"
    and "\<forall>r. e = Created r \<longrightarrow> new_row r"
  shows "\<forall>r\<in>set (apply_effect e xs).
           total_amount r = num_tickets r * TICKET_PRICE \<and> 1 \<le> num_tickets r \<and> num_tickets r \<le> 20"
  using assms by (cases e) (auto simp: new_row_def)

lemma reachable_totals:
  "reachable env d \<Longrightarrow>
     \<forall>r\<in>set (registrations d).
        total_amount r = num_tickets r * TICKET_PRICE \<and> 1 \<le> num_tickets r \<and> num_tickets r \<le> 20"
proof (induction rule: reachable.induct)
  case start
  show ?case by (simp add: startup_def registrations_def)
next
  case (request d sv req)
  obtain e where e: "registrations (db_after (handle env sv req d)) = apply_effect e (registrations d)"
      "\<forall>r. e = Created r \<longrightarrow> new_row r"
    using handle_effect by blast
  show ?case
    unfolding e(1) using request.IH e(2) by (rule effect_totals)
qed

section \<open>Without a store\<close>

text \<open>
  When \<^verbatim>\<open>TURSO_DATABASE_URL\<close> is not set there is no store and there never is a
  registration. A purchase is then answered 500, and a verified completion event reaches
  \<^verbatim>\<open>db.execute\<close> on \<^verbatim>\<open>null\<close>, which throws outside any \<^verbatim>\<open>try\<close>.
\<close>

lemma webhook_without_store:
  assumes "truthy (STRIPE_WEBHOOK_SECRET env)"
    and "constructEvent sv (raw_body req) (stripe_signature req)
           (template (STRIPE_WEBHOOK_SECRET env)) = Inr ev"
    and "event_type ev = ''checkout.session.completed''"
  shows "post_webhook env sv req None = \<lparr>response = Unhandled, db_after = None, queries = []\<rparr>"
  using assms by (simp add: post_webhook_def)

lemma intake_without_store:
  assumes "truthy (body req ''first_name'')" "truthy (body req ''last_name'')"
    "truthy (body req ''email'')" "truthy (body req ''phone'')" "truthy (body req ''num_tickets'')"
    and "parseInt10 (template (body req ''num_tickets'')) = Some n" "1 \<le> n" "n \<le> 20"
  shows "post_create_checkout_session sv req None =
           \<lparr>response = server_error, db_after = None, queries = []\<rparr>"
  using assms by (simp add: post_create_checkout_session_def)

lemma startup_without_url:
  "reachable env d \<Longrightarrow> \<not> truthy (TURSO_DATABASE_URL env) \<Longrightarrow> d = None"
proof (induction rule: reachable.induct)
  case start
  then show ?case by (simp add: startup_def)
next
  case (request d sv req)
  then have "d = None" by simp
  then show ?case
    by (cases req)
       (auto simp: post_webhook_def get_success_def post_create_checkout_session_def get_admin_def
          get_home_def get_cancel_def Let_def split: sum.splits option.splits)
qed

section \<open>The paid-transition is idempotent\<close>

text \<open>
  C1. Let \<open>S\<close> be a session identifier and \<open>t\<close> a table in which every registration whose
  \<open>stripe_session_id\<close> is \<open>S\<close> is already \<open>paid\<close>. Then the paid-transition for \<open>S\<close> (the
  UPDATE keyed by the session identifier) leaves the table as it is; the webhook,
  receiving a verified completion event for \<open>S\<close>, answers 200 \<open>{received: true}\<close> and the
  store is unchanged; the success page, when the provider reports \<open>S\<close> paid, is rendered
  and the store is unchanged. On any table \<open>t0\<close>, applying the transition twice is
  applying it once.
\<close>

theorem paid_transition_idempotent:
  assumes paid: "\<forall>r\<in>set (rows t). stripe_session_id r = Some S \<longrightarrow> payment_status r = ''paid''"
    and secret: "truthy (STRIPE_WEBHOOK_SECRET env)"
    and verified: "constructEvent sv (raw_body req) (stripe_signature req)
                     (template (STRIPE_WEBHOOK_SECRET env)) = Inr ev"
    and kind: "event_type ev = ''checkout.session.completed''" "data_object_id ev = S"
    and live: "sessions_retrieve sv S = Inr sess" "session_payment_status sess = ''paid''"
  shows "update_payment_status ''paid'' S t = t
       \<and> post_webhook env sv req (Some t) = \<lparr>response = received, db_after = Some t, queries = []\<rparr>
       \<and> response (get_success sv (Some S) (Some t)) = Response 200 [] (Page SUCCESS_CONTENT)
       \<and> db_after (get_success sv (Some S) (Some t)) = Some t
       \<and> update_payment_status ''paid'' S (update_payment_status ''paid'' S t0)
           = update_payment_status ''paid'' S t0"
proof -
  have noop: "update_payment_status ''paid'' S t = t"
    using paid by (rule update_paid_noop)
  have hook: "post_webhook env sv req (Some t) = \<lparr>response = received, db_after = Some t, queries = []\<rparr>"
    using secret verified kind noop by (simp add: post_webhook_def)
  have page: "response (get_success sv (Some S) (Some t)) = Response 200 [] (Page SUCCESS_CONTENT)"
    by (simp add: get_success_def split: sum.splits)
  have kept: "db_after (get_success sv (Some S) (Some t)) = Some t"
    using live noop by (simp add: get_success_def truthy_def template_def)
  show ?thesis
    using noop hook page kept by (simp add: update_payment_status_twice)
qed

theorem paid_transition_idempotent_witness:
  "update_payment_status ''paid'' ''S123'' \<lparr>rows = [jane ''Jane'' 3 (Some ''S123'') ''paid''], seq = 1\<rparr>
     = \<lparr>rows = [jane ''Jane'' 3 (Some ''S123'') ''paid''], seq = 1\<rparr>
   \<and> post_webhook demo_environment demo_services completed
        (Some \<lparr>rows = [jane ''Jane'' 3 (Some ''S123'') ''paid''], seq = 1\<rparr>)
     = \<lparr>response = received,
        db_after = Some \<lparr>rows = [jane ''Jane'' 3 (Some ''S123'') ''paid''], seq = 1\<rparr>, queries = []\<rparr>
   \<and> db_after (get_success demo_services (Some ''S123'')
        (Some \<lparr>rows = [jane ''Jane'' 3 (Some ''S123'') ''paid''], seq = 1\<rparr>))
     = Some \<lparr>rows = [jane ''Jane'' 3 (Some ''S123'') ''paid''], seq = 1\<rparr>"
proof -
  let ?t = "\<lparr>rows = [jane ''Jane'' 3 (Some ''S123'') ''paid''], seq = 1\<rparr>"
  let ?ev = "\<lparr>event_type = ''checkout.session.completed'', data_object_id = ''S123''\<rparr>"
  have paid: "\<forall>r\<in>set (rows ?t). stripe_session_id r = Some ''S123'' \<longrightarrow> payment_status r = ''paid''"
    by (simp add: jane_def)
  have secret: "truthy (STRIPE_WEBHOOK_SECRET demo_environment)"
    by (simp add: demo_environment_def truthy_def)
  have verified: "constructEvent demo_services (raw_body completed) (stripe_signature completed)
                    (template (STRIPE_WEBHOOK_SECRET demo_environment)) = Inr ?ev"
    by (simp add: demo_services_def demo_environment_def completed_def template_def)
  have live: "sessions_retrieve demo_services ''S123'' = Inr S123" "session_payment_status S123 = ''paid''"
    by (simp_all add: demo_services_def S123_def)
  show ?thesis
    using paid_transition_idempotent [OF paid secret verified _ _ live, of ?t] by simp
qed

section \<open>The payment status only moves from pending to paid\<close>

lemma purchase_reaches:
  "db_after (handle demo_environment demo_services (POST_create_checkout_session (purchase ''Jane'' ''3''))
     (startup demo_environment)) = Some \<lparr>rows = [jane ''Jane'' 3 (Some ''S123'') ''pending''], seq = 1\<rparr>"
  by (simp add: post_create_checkout_session_def demo_environment_def demo_services_def purchase_def
      startup_def truthy_def template_def or_else_def parseInt10_def is_white_space_def is_digit_def
      digit_value_def decimal_value_def TICKET_PRICE_def insert_registration_def update_session_id_def
      jane_def S123_def Let_def)

text \<open>
  C2. In every reachable state every registration is \<open>pending\<close> or \<open>paid\<close>. Whatever
  request is handled next, with whatever the collaborators answer: no registration
  disappears or changes its identifier; each keeps its payment status or goes from
  \<open>pending\<close> to \<open>paid\<close>, and none goes from \<open>paid\<close> to \<open>pending\<close>; every registration the
  request creates is \<open>pending\<close>.
\<close>

theorem payment_status_monotonic:
  fixes env sv req d
  defines "old \<equiv> registrations d"
  defines "new \<equiv> registrations (db_after (handle env sv req d))"
  assumes reach: "reachable env d"
  shows "(\<forall>r\<in>set old. payment_status r = ''pending'' \<or> payment_status r = ''paid'')
       \<and> length old \<le> length new
       \<and> (\<forall>i<length old.
             id_col (new ! i) = id_col (old ! i)
             \<and> (payment_status (new ! i) = payment_status (old ! i)
                \<or> payment_status (old ! i) = ''pending'' \<and> payment_status (new ! i) = ''paid'')
             \<and> \<not> (payment_status (old ! i) = ''paid'' \<and> payment_status (new ! i) = ''pending''))
       \<and> (\<forall>i. length old \<le> i \<and> i < length new \<longrightarrow> payment_status (new ! i) = ''pending'')"
proof -
  obtain e where e: "new = apply_effect e old"
      "\<forall>r. e = Created r \<longrightarrow> new_row r"
    unfolding old_def new_def using handle_effect by blast
  have inv: "\<forall>r\<in>set old. payment_status r = ''pending'' \<or> payment_status r = ''paid''"
    unfolding old_def using reach by (rule reachable_statuses)
  have len: "length old \<le> length new"
    unfolding e(1) by (rule effect_length)
  have kept: "id_col (new ! i) = id_col (old ! i)
             \<and> (payment_status (new ! i) = payment_status (old ! i)
                \<or> payment_status (old ! i) = ''pending'' \<and> payment_status (new ! i) = ''paid'')
             \<and> \<not> (payment_status (old ! i) = ''paid'' \<and> payment_status (new ! i) = ''pending'')"
    if i: "i < length old" for i
  proof -
    have "old ! i \<in> set old" using i by simp
    then have "payment_status (old ! i) = ''pending'' \<or> payment_status (old ! i) = ''paid''"
      using inv by blast
    moreover have "id_col (new ! i) = id_col (old ! i)
       \<and> (payment_status (new ! i) = payment_status (old ! i) \<or> payment_status (new ! i) = ''paid'')"
      unfolding e(1) using i by (rule effect_old)
    ultimately show ?thesis by auto
  qed
  have fresh: "payment_status (new ! i) = ''pending''" if "length old \<le> i" "i < length new" for i
    using that e(2) unfolding e(1) by (rule effect_new)
  show ?thesis
    using inv len kept fresh by blast
qed

theorem payment_status_monotonic_witness:
  "reachable demo_environment (Some \<lparr>rows = [jane ''Jane'' 3 (Some ''S123'') ''pending''], seq = 1\<rparr>)
   \<and> registrations (Some \<lparr>rows = [jane ''Jane'' 3 (Some ''S123'') ''pending''], seq = 1\<rparr>)
       = [jane ''Jane'' 3 (Some ''S123'') ''pending'']
   \<and> registrations (db_after (handle demo_environment demo_services (POST_webhook completed)
        (Some \<lparr>rows = [jane ''Jane'' 3 (Some ''S123'') ''pending''], seq = 1\<rparr>)))
       = [jane ''Jane'' 3 (Some ''S123'') ''paid'']
   \<and> length (registrations (Some \<lparr>rows = [jane ''Jane'' 3 (Some ''S123'') ''pending''], seq = 1\<rparr>))
       \<le> length (registrations (db_after (handle demo_environment demo_services (POST_webhook completed)
            (Some \<lparr>rows = [jane ''Jane'' 3 (Some ''S123'') ''pending''], seq = 1\<rparr>))))"
proof -
  let ?d = "Some \<lparr>rows = [jane ''Jane'' 3 (Some ''S123'') ''pending''], seq = 1\<rparr>"
  have "reachable demo_environment (db_after (handle demo_environment demo_services
          (POST_create_checkout_session (purchase ''Jane'' ''3'')) (startup demo_environment)))"
    by (rule reachable.request [OF reachable.start])
  then have reach: "reachable demo_environment ?d"
    by (simp only: purchase_reaches)
  have before: "registrations ?d = [jane ''Jane'' 3 (Some ''S123'') ''pending'']"
    by (simp add: registrations_def)
  have after: "registrations (db_after (handle demo_environment demo_services (POST_webhook completed) ?d))
          = [jane ''Jane'' 3 (Some ''S123'') ''paid'']"
    by (simp add: post_webhook_def demo_environment_def demo_services_def completed_def truthy_def
        template_def update_payment_status_def registrations_def jane_def received_def)
  have len: "length (registrations ?d)
       \<le> length (registrations (db_after (handle demo_environment demo_services (POST_webhook completed) ?d)))"
    using payment_status_monotonic [OF reach, of demo_services "POST_webhook completed"]
    by (elim conjE)
  show ?thesis
    using reach before after len by (intro conjI)
qed

section \<open>Order intake: validation\<close>

text \<open>
  C3, as the code has it. The handler tests each field with \<^verbatim>\<open>!field\<close> and never trims:
  a request is rejected with 400, the store is left as it is and the provider is not
  called, whenever one of the five fields is missing or the empty string, or
  \<^verbatim>\<open>parseInt(num_tickets, 10)\<close> is \<^verbatim>\<open>NaN\<close>, below 1 or above 20. This holds with
  and without a store.
\<close>

theorem intake_rejects_invalid:
  assumes "\<not> truthy (body req ''first_name'') \<or> \<not> truthy (body req ''last_name'')
         \<or> \<not> truthy (body req ''email'') \<or> \<not> truthy (body req ''phone'')
         \<or> \<not> truthy (body req ''num_tickets'')
         \<or> parseInt10 (template (body req ''num_tickets'')) = None
         \<or> (\<exists>n. parseInt10 (template (body req ''num_tickets'')) = Some n \<and> (n < 1 \<or> 20 < n))"
  shows "(\<exists>message. response (post_create_checkout_session sv req d) = Response 400 [] (Text message))
       \<and> db_after (post_create_checkout_session sv req d) = d
       \<and> queries (post_create_checkout_session sv req d) = []"
proof (cases "truthy (body req ''first_name'') \<and> truthy (body req ''last_name'')
         \<and> truthy (body req ''email'') \<and> truthy (body req ''phone'')
         \<and> truthy (body req ''num_tickets'')")
  case False
  then have "post_create_checkout_session sv req d =
      \<lparr>response = Response 400 [] (Text ''All fields are required.''), db_after = d, queries = []\<rparr>"
    by (auto simp: post_create_checkout_session_def Let_def)
  then show ?thesis by simp
next
  case True
  with assms have bad: "parseInt10 (template (body req ''num_tickets'')) = None
         \<or> (\<exists>n. parseInt10 (template (body req ''num_tickets'')) = Some n \<and> (n < 1 \<or> 20 < n))"
    by blast
  have "post_create_checkout_session sv req d =
      \<lparr>response = Response 400 [] (Text ''Please select between 1 and 20 tickets.''),
       db_after = d, queries = []\<rparr>"
    using True bad by (auto simp: post_create_checkout_session_def Let_def)
  then show ?thesis by simp
qed

theorem intake_rejects_invalid_witness:
  "response (post_create_checkout_session demo_services (purchase ''Jane'' ''21'') (Some empty_table))
     = Response 400 [] (Text ''Please select between 1 and 20 tickets.'')
   \<and> db_after (post_create_checkout_session demo_services (purchase ''Jane'' ''21'') (Some empty_table))
     = Some empty_table
   \<and> queries (post_create_checkout_session demo_services (purchase ''Jane'' ''21'') (Some empty_table)) = []"
proof -
  have p: "parseInt10 (template (body (purchase ''Jane'' ''21'') ''num_tickets'')) = Some 21"
    by (simp add: purchase_def template_def parseInt10_def is_white_space_def is_digit_def
        digit_value_def decimal_value_def Let_def)
  have "\<exists>n. parseInt10 (template (body (purchase ''Jane'' ''21'') ''num_tickets'')) = Some n \<and> (n < 1 \<or> 20 < n)"
    using p by simp
  then have r: "(\<exists>message. response (post_create_checkout_session demo_services (purchase ''Jane'' ''21'') (Some empty_table)) = Response 400 [] (Text message))
       \<and> db_after (post_create_checkout_session demo_services (purchase ''Jane'' ''21'') (Some empty_table)) = Some empty_table
       \<and> queries (post_create_checkout_session demo_services (purchase ''Jane'' ''21'') (Some empty_table)) = []"
    by (intro intake_rejects_invalid) blast
  have m: "response (post_create_checkout_session demo_services (purchase ''Jane'' ''21'') (Some empty_table))
     = Response 400 [] (Text ''Please select between 1 and 20 tickets.'')"
    using p by (simp add: post_create_checkout_session_def purchase_def truthy_def Let_def)
  show ?thesis using r m by blast
qed

text \<open>
  C3 as the spec states it fails: a first name of one space is empty after trimming, and
  the request is accepted (303) and its registration created.
\<close>

theorem intake_accepts_blank_name:
  "trim (template (body (purchase '' '' ''2'') ''first_name'')) = []
   \<and> response (post_create_checkout_session demo_services (purchase '' '' ''2'') (Some empty_table))
       = Redirect 303 ''https://checkout.example/S123''
   \<and> registrations (db_after (post_create_checkout_session demo_services (purchase '' '' ''2'') (Some empty_table)))
       = [jane '' '' 2 (Some ''S123'') ''pending'']"
  by (simp add: post_create_checkout_session_def demo_services_def purchase_def empty_table_def
      truthy_def template_def or_else_def parseInt10_def is_white_space_def is_digit_def
      digit_value_def decimal_value_def TICKET_PRICE_def insert_registration_def update_session_id_def
      jane_def S123_def Let_def trim_def registrations_def)

section \<open>Order intake: what a valid request stores\<close>

lemma checkout_valid:
  assumes "truthy (body req ''first_name'')" "truthy (body req ''last_name'')"
    "truthy (body req ''email'')" "truthy (body req ''phone'')" "truthy (body req ''num_tickets'')"
    and "parseInt10 (template (body req ''num_tickets'')) = Some n" "1 \<le> n" "n \<le> 20"
  shows "\<exists>rid sid.
      registrations (db_after (post_create_checkout_session sv req (Some t))) =
        rows t @ [\<lparr>id_col = rid,
                   first_name = template (body req ''first_name''),
                   last_name = template (body req ''last_name''),
                   email = template (body req ''email''),
                   phone = template (body req ''phone''),
                   num_tickets = n, total_amount = n * 5000, stripe_session_id = sid,
                   payment_status = ''pending'', created_at = CURRENT_TIMESTAMP sv\<rparr>]
      \<and> rid \<notin> id_col ` set (rows t)
      \<and> (\<forall>message. response (post_create_checkout_session sv req (Some t)) \<noteq> Response 400 [] (Text message))"
proof -
  let ?ins = "insert_registration (template (body req ''first_name'')) (template (body req ''last_name''))
      (template (body req ''email'')) (template (body req ''phone'')) n (n * 5000) (CURRENT_TIMESTAMP sv) t"
  have fresh: "fst ?ins \<notin> id_col ` set (rows t)"
  proof
    assume "fst ?ins \<in> id_col ` set (rows t)"
    then obtain r where r: "r \<in> set (rows t)" "id_col r = fst ?ins" by auto
    from insert_id_fresh [OF r(1)] r(2) show False by blast
  qed
  have "\<exists>sid. registrations (db_after (post_create_checkout_session sv req (Some t))) =
        rows t @ [\<lparr>id_col = fst ?ins,
                   first_name = template (body req ''first_name''),
                   last_name = template (body req ''last_name''),
                   email = template (body req ''email''),
                   phone = template (body req ''phone''),
                   num_tickets = n, total_amount = n * 5000, stripe_session_id = sid,
                   payment_status = ''pending'', created_at = CURRENT_TIMESTAMP sv\<rparr>]"
    using assms
    by (simp add: post_create_checkout_session_def Let_def registrations_def TICKET_PRICE_def
        rows_insert rows_update_session_id_insert split: sum.splits)
  moreover have "\<forall>message. response (post_create_checkout_session sv req (Some t)) \<noteq> Response 400 [] (Text message)"
    using assms
    by (simp add: post_create_checkout_session_def Let_def server_error_def split: sum.splits)
  ultimately show ?thesis using fresh by blast
qed

lemma parseInt10_leading:
  assumes ws: "\<forall>c\<in>set ws. is_white_space c" and sg: "sg = [] \<or> sg = ''+''"
    and ds: "ds \<noteq> []" "\<forall>c\<in>set ds. is_digit c"
    and rest: "rest = [] \<or> \<not> is_digit (hd rest)"
  shows "parseInt10 (ws @ sg @ ds @ rest) = Some (int (decimal_value ds))"
proof -
  obtain c cs where c: "ds = c # cs" using ds(1) by (cases ds) auto
  have dig: "is_digit c" using ds(2) c by simp
  then have nws: "\<not> is_white_space c" and nsign: "c \<noteq> CHR ''+''" "c \<noteq> CHR ''-''"
    by (auto simp: is_digit_def is_white_space_def)
  have pws: "\<not> is_white_space CHR ''+''"
    by (simp add: is_white_space_def)
  have drop: "dropWhile is_white_space (ws @ sg @ ds @ rest) = sg @ ds @ rest"
    using ws nws pws c sg by (auto simp: dropWhile_append2)
  have take: "takeWhile is_digit (ds @ rest) = ds"
  proof (cases rest)
    case Nil
    then show ?thesis using ds(2) by simp
  next
    case (Cons x xs)
    then have "\<not> is_digit x" using rest by simp
    then show ?thesis using ds(2) Cons by (simp add: takeWhile_tail)
  qed
  from sg show ?thesis
  proof
    assume "sg = []"
    then show ?thesis
      using take nsign ds(1) c unfolding parseInt10_def drop Let_def by simp
  next
    assume "sg = ''+''"
    then show ?thesis
      using take ds(1) unfolding parseInt10_def drop Let_def by simp
  qed
qed

text \<open>
  C4. On a store with table \<open>t\<close>, a request whose five fields are given and whose
  \<open>num_tickets\<close> parses to \<open>n\<close> with \<open>1 \<le> n \<le> 20\<close> leaves the rows of \<open>t\<close> as they
  were and adds exactly one row, with a new identifier, \<open>num_tickets = n\<close>,
  \<open>total_amount = n * 5000\<close> and \<open>payment_status = pending\<close>, whether or not the provider
  then creates the checkout session. The body is any map of fields: a field
  \<open>total_amount\<close> in it changes nothing, and in every reachable state every registration
  has \<open>total_amount = num_tickets * 5000\<close>. (Without a store the handler answers 500.)
\<close>

theorem intake_creates_pending_registration:
  assumes fields: "truthy (body req ''first_name'')" "truthy (body req ''last_name'')"
      "truthy (body req ''email'')" "truthy (body req ''phone'')" "truthy (body req ''num_tickets'')"
    and tickets: "parseInt10 (template (body req ''num_tickets'')) = Some n" "1 \<le> n" "n \<le> 20"
  shows "(\<exists>rid sid.
            registrations (db_after (post_create_checkout_session sv req (Some t))) =
              rows t @ [\<lparr>id_col = rid,
                         first_name = template (body req ''first_name''),
                         last_name = template (body req ''last_name''),
                         email = template (body req ''email''),
                         phone = template (body req ''phone''),
                         num_tickets = n, total_amount = n * 5000, stripe_session_id = sid,
                         payment_status = ''pending'', created_at = CURRENT_TIMESTAMP sv\<rparr>]
            \<and> rid \<notin> id_col ` set (rows t))
       \<and> (reachable env d \<longrightarrow> (\<forall>r\<in>set (registrations d). total_amount r = num_tickets r * 5000))"
proof -
  have created: "\<exists>rid sid.
            registrations (db_after (post_create_checkout_session sv req (Some t))) =
              rows t @ [\<lparr>id_col = rid,
                         first_name = template (body req ''first_name''),
                         last_name = template (body req ''last_name''),
                         email = template (body req ''email''),
                         phone = template (body req ''phone''),
                         num_tickets = n, total_amount = n * 5000, stripe_session_id = sid,
                         payment_status = ''pending'', created_at = CURRENT_TIMESTAMP sv\<rparr>]
            \<and> rid \<notin> id_col ` set (rows t)"
    using checkout_valid [OF fields tickets, of sv t] by blast
  have computed: "\<forall>r\<in>set (registrations d). total_amount r = num_tickets r * 5000" if "reachable env d"
    using reachable_totals [OF that] by (simp add: TICKET_PRICE_def)
  show ?thesis
    using created computed by blast
qed

theorem intake_creates_pending_registration_witness:
  "registrations (db_after (post_create_checkout_session demo_services (purchase ''Jane'' ''3'') (Some empty_table)))
     = [jane ''Jane'' 3 (Some ''S123'') ''pending'']
   \<and> total_amount (jane ''Jane'' 3 (Some ''S123'') ''pending'') = 15000
   \<and> reachable demo_environment (startup demo_environment)
   \<and> registrations (startup demo_environment) = []"
proof -
  let ?req = "purchase ''Jane'' ''3''"
  have fields: "truthy (body ?req ''first_name'')" "truthy (body ?req ''last_name'')"
      "truthy (body ?req ''email'')" "truthy (body ?req ''phone'')" "truthy (body ?req ''num_tickets'')"
    by (simp_all add: purchase_def truthy_def)
  have tickets: "parseInt10 (template (body ?req ''num_tickets'')) = Some 3" "(1::int) \<le> 3" "(3::int) \<le> 20"
    by (simp_all add: purchase_def template_def parseInt10_def is_white_space_def is_digit_def
        digit_value_def decimal_value_def Let_def)
  obtain rid sid where new:
      "registrations (db_after (post_create_checkout_session demo_services ?req (Some empty_table))) =
         rows empty_table @ [\<lparr>id_col = rid,
                         first_name = template (body ?req ''first_name''),
                         last_name = template (body ?req ''last_name''),
                         email = template (body ?req ''email''),
                         phone = template (body ?req ''phone''),
                         num_tickets = 3, total_amount = 3 * 5000, stripe_session_id = sid,
                         payment_status = ''pending'', created_at = CURRENT_TIMESTAMP demo_services\<rparr>]"
    using intake_creates_pending_registration [OF fields tickets, of demo_services empty_table]
    by blast
  have run: "registrations (db_after (post_create_checkout_session demo_services ?req (Some empty_table)))
     = [jane ''Jane'' 3 (Some ''S123'') ''pending'']"
    using purchase_reaches
    by (simp add: startup_def demo_environment_def truthy_def empty_table_def registrations_def)
  have "total_amount (jane ''Jane'' 3 (Some ''S123'') ''pending'') = 15000"
    using new run by (simp add: empty_table_def jane_def)
  moreover have "reachable demo_environment (startup demo_environment)"
    by (rule reachable.start)
  moreover have "registrations (startup demo_environment) = []"
    by (simp add: startup_def demo_environment_def truthy_def registrations_def)
  ultimately show ?thesis using run by blast
qed

text \<open>
  C10. Let the other four fields be given and \<open>num_tickets\<close> be white space \<open>ws\<close>, an
  optional \<open>+\<close>, a non-empty run of digits \<open>ds\<close>, then any \<open>rest\<close> that does not start with a digit
  (\<open>3abc\<close>, \<open>3.9\<close>). Then \<open>parseInt\<close> gives the value \<open>n\<close> of \<open>ds\<close>, and when
  \<open>1 \<le> n \<le> 20\<close> the request is not rejected with 400: on a store with table \<open>t\<close> it
  adds one registration with \<open>num_tickets = n\<close> and \<open>total_amount = n * 5000\<close>.
\<close>

theorem intake_accepts_leading_integer:
  assumes fields: "truthy (body req ''first_name'')" "truthy (body req ''last_name'')"
      "truthy (body req ''email'')" "truthy (body req ''phone'')"
    and shape: "body req ''num_tickets'' = Some (ws @ sg @ ds @ rest)"
      "\<forall>c\<in>set ws. is_white_space c" "sg = [] \<or> sg = ''+''"
      "ds \<noteq> []" "\<forall>c\<in>set ds. is_digit c"
      "rest = [] \<or> \<not> is_digit (hd rest)"
    and range: "1 \<le> decimal_value ds" "decimal_value ds \<le> 20"
  shows "parseInt10 (ws @ sg @ ds @ rest) = Some (int (decimal_value ds))
       \<and> (\<forall>message. response (post_create_checkout_session sv req (Some t)) \<noteq> Response 400 [] (Text message))
       \<and> (\<exists>new. registrations (db_after (post_create_checkout_session sv req (Some t))) = rows t @ [new]
              \<and> num_tickets new = int (decimal_value ds)
              \<and> total_amount new = int (decimal_value ds) * 5000)"
proof -
  have parsed: "parseInt10 (ws @ sg @ ds @ rest) = Some (int (decimal_value ds))"
    using shape(2-6) by (rule parseInt10_leading)
  have given: "truthy (body req ''num_tickets'')"
    using shape(1,4) by (simp add: truthy_def)
  have tickets: "parseInt10 (template (body req ''num_tickets'')) = Some (int (decimal_value ds))"
    using parsed shape(1) by (simp add: template_def)
  have lo: "1 \<le> int (decimal_value ds)" and hi: "int (decimal_value ds) \<le> 20"
    using range by simp_all
  obtain rid sid where
    new: "registrations (db_after (post_create_checkout_session sv req (Some t))) =
        rows t @ [\<lparr>id_col = rid,
                   first_name = template (body req ''first_name''),
                   last_name = template (body req ''last_name''),
                   email = template (body req ''email''),
                   phone = template (body req ''phone''),
                   num_tickets = int (decimal_value ds), total_amount = int (decimal_value ds) * 5000,
                   stripe_session_id = sid,
                   payment_status = ''pending'', created_at = CURRENT_TIMESTAMP sv\<rparr>]"
    and accepted: "\<forall>message. response (post_create_checkout_session sv req (Some t)) \<noteq> Response 400 [] (Text message)"
    using checkout_valid [OF fields given tickets lo hi, of sv t] by blast
  have "\<exists>new. registrations (db_after (post_create_checkout_session sv req (Some t))) = rows t @ [new]
              \<and> num_tickets new = int (decimal_value ds)
              \<and> total_amount new = int (decimal_value ds) * 5000"
    unfolding new by simp
  then show ?thesis
    using parsed accepted by blast
qed

theorem intake_accepts_leading_integer_witness:
  "parseInt10 ''3abc'' = Some 3
   \<and> parseInt10 ''3.9'' = Some 3
   \<and> registrations (db_after (post_create_checkout_session demo_services (purchase ''Jane'' ''3abc'')
        (Some empty_table))) = [jane ''Jane'' 3 (Some ''S123'') ''pending'']
   \<and> registrations (db_after (post_create_checkout_session demo_services (purchase ''Jane'' ''3.9'')
        (Some empty_table))) = [jane ''Jane'' 3 (Some ''S123'') ''pending'']"
proof -
  have v: "decimal_value ''3'' = 3"
    by (simp add: decimal_value_def digit_value_def)
  have d: "''3'' \<noteq> []" "\<forall>c\<in>set ''3''. is_digit c" "\<forall>c\<in>set []. is_white_space c"
    "[] = [] \<or> [] = ''+''"
    by (simp_all add: is_digit_def)
  have r: "(1::nat) \<le> decimal_value ''3''" "decimal_value ''3'' \<le> 20"
    by (simp_all add: v)
  have fields: "truthy (body (purchase ''Jane'' s) ''first_name'')" "truthy (body (purchase ''Jane'' s) ''last_name'')"
      "truthy (body (purchase ''Jane'' s) ''email'')" "truthy (body (purchase ''Jane'' s) ''phone'')" for s
    by (simp_all add: purchase_def truthy_def)
  have abc: "body (purchase ''Jane'' ''3abc'') ''num_tickets'' = Some ([] @ [] @ ''3'' @ ''abc'')"
    "''abc'' = [] \<or> \<not> is_digit (hd ''abc'')"
    by (simp_all add: purchase_def is_digit_def)
  have dot: "body (purchase ''Jane'' ''3.9'') ''num_tickets'' = Some ([] @ [] @ ''3'' @ ''.9'')"
    "''.9'' = [] \<or> \<not> is_digit (hd ''.9'')"
    by (simp_all add: purchase_def is_digit_def)
  note t1 = intake_accepts_leading_integer [OF fields abc(1) d(3) d(4) d(1) d(2) abc(2) r, of demo_services empty_table]
  note t2 = intake_accepts_leading_integer [OF fields dot(1) d(3) d(4) d(1) d(2) dot(2) r, of demo_services empty_table]
  have p1: "parseInt10 ''3abc'' = Some 3" using t1 v by simp
  have p2: "parseInt10 ''3.9'' = Some 3" using t2 v by simp
  have run: "registrations (db_after (post_create_checkout_session demo_services (purchase ''Jane'' s)
        (Some empty_table))) = [jane ''Jane'' 3 (Some ''S123'') ''pending'']" if "parseInt10 s = Some 3" "s \<noteq> []" for s
    using that
    by (simp add: post_create_checkout_session_def demo_services_def purchase_def empty_table_def
      truthy_def template_def or_else_def TICKET_PRICE_def insert_registration_def update_session_id_def
      jane_def S123_def Let_def registrations_def)
  show ?thesis
    using p1 p2 run [OF p1] run [OF p2] by simp
qed

section \<open>The webhook\<close>

text \<open>
  C5, as the code has it. \<open>POST /webhook\<close> answers 400 exactly when the secret is not
  configured (\<^verbatim>\<open>undefined\<close> or empty) or \<open>constructEvent\<close> throws on the raw body and
  the \<^verbatim>\<open>stripe-signature\<close> header, and then the store is unchanged, whatever it was.
  A verified event is answered 200 \<open>{received: true}\<close> whenever the store is configured,
  and also without a store when its kind is not \<open>checkout.session.completed\<close>.
\<close>

theorem webhook_signature_gate:
  "((\<exists>hs c. response (post_webhook env sv req d) = Response 400 hs c)
      \<longleftrightarrow> (\<not> truthy (STRIPE_WEBHOOK_SECRET env)
           \<or> isl (constructEvent sv (raw_body req) (stripe_signature req)
                    (template (STRIPE_WEBHOOK_SECRET env)))))
   \<and> (\<not> truthy (STRIPE_WEBHOOK_SECRET env)
        \<or> isl (constructEvent sv (raw_body req) (stripe_signature req)
                 (template (STRIPE_WEBHOOK_SECRET env)))
       \<longrightarrow> db_after (post_webhook env sv req d) = d)
   \<and> (\<forall>ev. truthy (STRIPE_WEBHOOK_SECRET env)
         \<and> constructEvent sv (raw_body req) (stripe_signature req)
              (template (STRIPE_WEBHOOK_SECRET env)) = Inr ev
         \<and> (d \<noteq> None \<or> event_type ev \<noteq> ''checkout.session.completed'')
       \<longrightarrow> response (post_webhook env sv req d) = received)"
proof (intro conjI allI impI)
  show "(\<exists>hs c. response (post_webhook env sv req d) = Response 400 hs c)
      \<longleftrightarrow> (\<not> truthy (STRIPE_WEBHOOK_SECRET env)
           \<or> isl (constructEvent sv (raw_body req) (stripe_signature req)
                    (template (STRIPE_WEBHOOK_SECRET env))))"
    by (auto simp: post_webhook_def Let_def received_def split: sum.splits option.splits)
next
  assume "\<not> truthy (STRIPE_WEBHOOK_SECRET env)
        \<or> isl (constructEvent sv (raw_body req) (stripe_signature req)
                 (template (STRIPE_WEBHOOK_SECRET env)))"
  then show "db_after (post_webhook env sv req d) = d"
    by (auto simp: post_webhook_def Let_def split: sum.splits)
next
  fix ev
  assume "truthy (STRIPE_WEBHOOK_SECRET env)
         \<and> constructEvent sv (raw_body req) (stripe_signature req)
              (template (STRIPE_WEBHOOK_SECRET env)) = Inr ev
         \<and> (d \<noteq> None \<or> event_type ev \<noteq> ''checkout.session.completed'')"
  then show "response (post_webhook env sv req d) = received"
    by (auto simp: post_webhook_def Let_def split: option.splits)
qed

theorem webhook_signature_gate_witness:
  "response (post_webhook demo_environment demo_services forged (Some empty_table))
     = Response 400 [] (Text ''Webhook Error: signature mismatch'')
   \<and> db_after (post_webhook demo_environment demo_services forged (Some empty_table)) = Some empty_table
   \<and> response (post_webhook demo_environment demo_services completed (Some empty_table)) = received"
proof -
  have bad: "isl (constructEvent demo_services (raw_body forged) (stripe_signature forged)
                 (template (STRIPE_WEBHOOK_SECRET demo_environment)))"
    by (simp add: demo_services_def demo_environment_def forged_def template_def)
  have good: "truthy (STRIPE_WEBHOOK_SECRET demo_environment)
      \<and> constructEvent demo_services (raw_body completed) (stripe_signature completed)
              (template (STRIPE_WEBHOOK_SECRET demo_environment))
          = Inr \<lparr>event_type = ''checkout.session.completed'', data_object_id = ''S123''\<rparr>
      \<and> (Some empty_table \<noteq> None
          \<or> event_type \<lparr>event_type = ''checkout.session.completed'', data_object_id = ''S123''\<rparr>
              \<noteq> ''checkout.session.completed'')"
    by (simp add: demo_services_def demo_environment_def completed_def template_def truthy_def)
  have status: "response (post_webhook demo_environment demo_services forged (Some empty_table))
     = Response 400 [] (Text ''Webhook Error: signature mismatch'')"
    by (simp add: post_webhook_def demo_services_def demo_environment_def forged_def template_def truthy_def)
  have kept: "db_after (post_webhook demo_environment demo_services forged (Some empty_table)) = Some empty_table"
    using webhook_signature_gate [of demo_environment demo_services forged "Some empty_table"] bad
    by blast
  have ack: "response (post_webhook demo_environment demo_services completed (Some empty_table)) = received"
    using webhook_signature_gate [of demo_environment demo_services completed "Some empty_table"] good
    by blast
  show ?thesis using status kept ack by (intro conjI)
qed

text \<open>
  C5 as stated ("for every verified event it responds 200") fails in the state the
  program starts in when \<^verbatim>\<open>TURSO_DATABASE_URL\<close> is not set: the event is verified, its
  kind is \<open>checkout.session.completed\<close>, and \<^verbatim>\<open>db.execute\<close> on \<^verbatim>\<open>null\<close> throws before
  \<^verbatim>\<open>res.json\<close>, so neither 400 nor 200 is written.
\<close>

theorem webhook_completion_without_store:
  "reachable no_store (startup no_store)
   \<and> startup no_store = None
   \<and> constructEvent demo_services (raw_body completed) (stripe_signature completed)
        (template (STRIPE_WEBHOOK_SECRET no_store))
       = Inr \<lparr>event_type = ''checkout.session.completed'', data_object_id = ''S123''\<rparr>
   \<and> post_webhook no_store demo_services completed (startup no_store)
       = \<lparr>response = Unhandled, db_after = None, queries = []\<rparr>"
proof -
  have "reachable no_store (startup no_store)"
    by (rule reachable.start)
  moreover have "startup no_store = None"
    by (simp add: startup_def no_store_def truthy_def)
  moreover have "constructEvent demo_services (raw_body completed) (stripe_signature completed)
        (template (STRIPE_WEBHOOK_SECRET no_store))
       = Inr \<lparr>event_type = ''checkout.session.completed'', data_object_id = ''S123''\<rparr>"
    by (simp add: demo_services_def no_store_def completed_def template_def)
  moreover have "post_webhook no_store demo_services completed (startup no_store)
       = \<lparr>response = Unhandled, db_after = None, queries = []\<rparr>"
    by (simp add: post_webhook_def startup_def no_store_def demo_services_def completed_def
        truthy_def template_def)
  ultimately show ?thesis by (intro conjI)
qed

text \<open>
  C6, as the code has it. For a verified event whose kind is not
  \<open>checkout.session.completed\<close> (with or without a store), or whose session identifier is
  the \<open>stripe_session_id\<close> of no row of the configured store's table, the webhook answers
  200 \<open>{received: true}\<close>, leaves every registration as it is and calls no provider.
\<close>

theorem webhook_unmatched_or_other_kind:
  assumes secret: "truthy (STRIPE_WEBHOOK_SECRET env)"
    and verified: "constructEvent sv (raw_body req) (stripe_signature req)
                     (template (STRIPE_WEBHOOK_SECRET env)) = Inr ev"
    and other: "event_type ev \<noteq> ''checkout.session.completed''
                \<or> (\<exists>t. d = Some t \<and> (\<forall>r\<in>set (rows t). stripe_session_id r \<noteq> Some (data_object_id ev)))"
  shows "post_webhook env sv req d = \<lparr>response = received, db_after = d, queries = []\<rparr>"
proof (cases "event_type ev = ''checkout.session.completed''")
  case False
  then show ?thesis
    using secret verified by (simp add: post_webhook_def)
next
  case True
  with other obtain t where t: "d = Some t"
      "\<forall>r\<in>set (rows t). stripe_session_id r \<noteq> Some (data_object_id ev)"
    by blast
  have "update_payment_status ''paid'' (data_object_id ev) t = t"
    using t(2) by (intro update_paid_noop) simp
  then show ?thesis
    using secret verified True t(1) by (simp add: post_webhook_def)
qed

theorem webhook_unmatched_or_other_kind_witness:
  "post_webhook demo_environment demo_services completed
      (Some \<lparr>rows = [jane ''Jane'' 3 (Some ''S999'') ''pending''], seq = 1\<rparr>)
     = \<lparr>response = received,
        db_after = Some \<lparr>rows = [jane ''Jane'' 3 (Some ''S999'') ''pending''], seq = 1\<rparr>,
        queries = []\<rparr>"
proof -
  let ?t = "\<lparr>rows = [jane ''Jane'' 3 (Some ''S999'') ''pending''], seq = 1\<rparr>"
  let ?ev = "\<lparr>event_type = ''checkout.session.completed'', data_object_id = ''S123''\<rparr>"
  have secret: "truthy (STRIPE_WEBHOOK_SECRET demo_environment)"
    by (simp add: demo_environment_def truthy_def)
  have verified: "constructEvent demo_services (raw_body completed) (stripe_signature completed)
                    (template (STRIPE_WEBHOOK_SECRET demo_environment)) = Inr ?ev"
    by (simp add: demo_services_def demo_environment_def completed_def template_def)
  have "\<forall>r\<in>set (rows ?t). stripe_session_id r \<noteq> Some (data_object_id ?ev)"
    by (simp add: jane_def)
  then have other: "event_type ?ev \<noteq> ''checkout.session.completed''
        \<or> (\<exists>t. Some ?t = Some t \<and> (\<forall>r\<in>set (rows t). stripe_session_id r \<noteq> Some (data_object_id ?ev)))"
    by blast
  show ?thesis
    by (rule webhook_unmatched_or_other_kind [OF secret verified other])
qed

text \<open>
  C6 as stated fails without a store: there is no registration, so the session
  identifier of a verified completion event matches none, and the event is not
  acknowledged.
\<close>

theorem webhook_unmatched_without_store:
  "registrations (startup no_store) = []
   \<and> event_type \<lparr>event_type = ''checkout.session.completed'', data_object_id = ''S123''\<rparr>
       = ''checkout.session.completed''
   \<and> constructEvent demo_services (raw_body completed) (stripe_signature completed) ''whsec''
       = Inr \<lparr>event_type = ''checkout.session.completed'', data_object_id = ''S123''\<rparr>
   \<and> response (post_webhook no_store demo_services completed (startup no_store)) = Unhandled
   \<and> Unhandled \<noteq> received"
  by (simp add: registrations_def post_webhook_def startup_def no_store_def demo_services_def
      completed_def truthy_def template_def received_def)

section \<open>The success page\<close>

text \<open>
  C7. \<open>GET /success\<close> always renders the success page. The store after the request is
  the store before it with the paid-transition applied for the session identifier if the
  query parameter is present (a non-empty string: the handler tests
  \<^verbatim>\<open>if (sessionId)\<close>) and the provider's answer to the status query is a session with
  \<open>payment_status = paid\<close>; in every other case (no parameter, a query that throws, a
  status that is not paid) the store is unchanged. The provider is queried once when the
  parameter is present and not at all when it is absent.
\<close>

theorem success_page_poll:
  "response (get_success sv q d) = Response 200 [] (Page SUCCESS_CONTENT)
   \<and> db_after (get_success sv q d) =
       (if truthy q \<and> (\<exists>s. sessions_retrieve sv (template q) = Inr s \<and> session_payment_status s = ''paid'')
        then map_option (update_payment_status ''paid'' (template q)) d else d)
   \<and> queries (get_success sv q d) = (if truthy q then [SessionsRetrieve (template q)] else [])"
proof (intro conjI)
  show "response (get_success sv q d) = Response 200 [] (Page SUCCESS_CONTENT)"
    by (simp add: get_success_def split: sum.splits)
  show "db_after (get_success sv q d) =
       (if truthy q \<and> (\<exists>s. sessions_retrieve sv (template q) = Inr s \<and> session_payment_status s = ''paid'')
        then map_option (update_payment_status ''paid'' (template q)) d else d)"
    by (cases d) (auto simp: get_success_def split: sum.splits)
  show "queries (get_success sv q d) = (if truthy q then [SessionsRetrieve (template q)] else [])"
    by (simp add: get_success_def split: sum.splits)
qed

theorem success_page_poll_witness:
  "db_after (get_success demo_services (Some ''S123'')
       (Some \<lparr>rows = [jane ''Jane'' 3 (Some ''S123'') ''pending''], seq = 1\<rparr>))
     = Some \<lparr>rows = [jane ''Jane'' 3 (Some ''S123'') ''paid''], seq = 1\<rparr>
   \<and> db_after (get_success demo_services (Some ''S404'')
       (Some \<lparr>rows = [jane ''Jane'' 3 (Some ''S123'') ''pending''], seq = 1\<rparr>))
     = Some \<lparr>rows = [jane ''Jane'' 3 (Some ''S123'') ''pending''], seq = 1\<rparr>
   \<and> get_success demo_services None (Some \<lparr>rows = [jane ''Jane'' 3 (Some ''S123'') ''pending''], seq = 1\<rparr>)
     = \<lparr>response = Response 200 [] (Page SUCCESS_CONTENT),
        db_after = Some \<lparr>rows = [jane ''Jane'' 3 (Some ''S123'') ''pending''], seq = 1\<rparr>,
        queries = []\<rparr>"
proof -
  let ?d = "Some \<lparr>rows = [jane ''Jane'' 3 (Some ''S123'') ''pending''], seq = 1\<rparr>"
  have paid: "db_after (get_success demo_services (Some ''S123'') ?d)
      = Some \<lparr>rows = [jane ''Jane'' 3 (Some ''S123'') ''paid''], seq = 1\<rparr>"
    using success_page_poll [of demo_services "Some ''S123''" ?d]
    by (simp add: truthy_def template_def demo_services_def S123_def update_payment_status_def jane_def)
  have failed: "db_after (get_success demo_services (Some ''S404'') ?d) = ?d"
    using success_page_poll [of demo_services "Some ''S404''" ?d]
    by (simp add: truthy_def template_def demo_services_def)
  have absent: "get_success demo_services None ?d
     = \<lparr>response = Response 200 [] (Page SUCCESS_CONTENT), db_after = ?d, queries = []\<rparr>"
    using success_page_poll [of demo_services None ?d]
    by (simp add: truthy_def get_success_def)
  show ?thesis
    using paid failed absent by (intro conjI)
qed

section \<open>The admin listing\<close>

lemma decode_admin: "node_base64_ascii ''YWRtaW46YWRtaW4='' = ''admin:admin''"
  by code_simp

lemma foldl_plus_sum_list: "foldl (\<lambda>sum r. sum + f r) a xs = (a::int) + sum_list (map f xs)"
  by (induction xs arbitrary: a) simp_all

lemma sum_list_filter_mset:
  "sum_list (map f (filter P xs)) = sum_mset (image_mset f (filter_mset P (mset xs)))"
  for f :: "'a \<Rightarrow> int"
  by (induction xs) simp_all

lemma mset_select_all: "mset (select_all t) = mset (rows t)"
  by (simp add: select_all_def)

lemma sum_paid_select_all:
  "sum_list (map f (filter P (select_all t))) = sum_list (map f (filter P (rows t)))"
  for f :: "registration \<Rightarrow> int"
  by (simp add: sum_list_filter_mset mset_select_all)

lemma split_on_absent: "c \<notin> set xs \<Longrightarrow> split_on c xs = [xs]"
  by (induction xs) auto

lemma split_basic: "CHR '' '' \<notin> set b \<Longrightarrow> split_on CHR '' '' (''Basic '' @ b) = [''Basic'', b]"
  by (simp add: split_on_absent)

lemma admin_listing:
  assumes "response (get_admin env sv h d) = Response 200 hs (AdminHtml regs n k m)"
  shows "\<exists>t. d = Some t \<and> regs = select_all t \<and> n = length (rows t)
       \<and> k = sum_list (map num_tickets (filter (\<lambda>r. payment_status r = ''paid'') (rows t)))
       \<and> m = sum_list (map total_amount (filter (\<lambda>r. payment_status r = ''paid'') (rows t)))"
proof (cases d)
  case None
  then show ?thesis
    using assms by (simp add: get_admin_def Let_def challenge_def split: if_splits option.splits)
next
  case (Some t)
  have len: "length (select_all t) = length (rows t)"
    by (simp add: select_all_def)
  show ?thesis
    using assms Some
    by (simp add: get_admin_def Let_def challenge_def foldl_plus_sum_list sum_paid_select_all len
        split: if_splits option.splits)
qed

lemma demo_listing:
  "response (get_admin demo_environment demo_services (Some ''Basic YWRtaW46YWRtaW4='') (Some two_rows))
     = Response 200 [] (AdminHtml [(jane ''June'' 2 None ''pending'')\<lparr>id_col := 2, created_at := 2000\<rparr>, jane ''Jane'' 3 (Some ''S123'') ''paid''] 2 3 15000)"
  by (simp add: get_admin_def demo_environment_def demo_services_def two_rows_def or_else_def truthy_def
      template_def at_def decode_admin select_all_def
      jane_def Let_def)

text \<open>
  C8. \<open>GET /admin\<close> never changes the store and never calls the provider. Whenever it
  answers with the listing, the listing shows the registrations of the store (each
  once), the count is the number of all registrations, the tickets sold are the sum of
  \<open>num_tickets\<close> and the revenue the sum of \<open>total_amount\<close> over exactly the registrations
  whose \<open>payment_status\<close> is \<open>paid\<close>: a registration with any other status adds nothing
  to either.
\<close>

theorem admin_totals_paid_only:
  "db_after (get_admin env sv h d) = d
   \<and> queries (get_admin env sv h d) = []
   \<and> (\<forall>hs regs n k m. response (get_admin env sv h d) = Response 200 hs (AdminHtml regs n k m) \<longrightarrow>
        mset regs = mset (registrations d)
        \<and> n = length (registrations d)
        \<and> k = sum_list (map num_tickets (filter (\<lambda>r. payment_status r = ''paid'') (registrations d)))
        \<and> m = sum_list (map total_amount (filter (\<lambda>r. payment_status r = ''paid'') (registrations d))))"
proof (intro conjI allI impI)
  show "db_after (get_admin env sv h d) = d"
    by (rule admin_unchanged)
  show "queries (get_admin env sv h d) = []"
    by (simp add: get_admin_def Let_def split: option.splits)
next
  fix hs regs n k m
  assume "response (get_admin env sv h d) = Response 200 hs (AdminHtml regs n k m)"
  then obtain t where t: "d = Some t" "regs = select_all t" "n = length (rows t)"
      "k = sum_list (map num_tickets (filter (\<lambda>r. payment_status r = ''paid'') (rows t)))"
      "m = sum_list (map total_amount (filter (\<lambda>r. payment_status r = ''paid'') (rows t)))"
    using admin_listing by blast
  show "mset regs = mset (registrations d)" using t by (simp add: registrations_def mset_select_all)
  show "n = length (registrations d)" using t by (simp add: registrations_def)
  show "k = sum_list (map num_tickets (filter (\<lambda>r. payment_status r = ''paid'') (registrations d)))"
    using t by (simp add: registrations_def)
  show "m = sum_list (map total_amount (filter (\<lambda>r. payment_status r = ''paid'') (registrations d)))"
    using t by (simp add: registrations_def)
qed

theorem admin_totals_paid_only_witness:
  "response (get_admin demo_environment demo_services (Some ''Basic YWRtaW46YWRtaW4='') (Some two_rows))
     = Response 200 [] (AdminHtml [(jane ''June'' 2 None ''pending'')\<lparr>id_col := 2, created_at := 2000\<rparr>, jane ''Jane'' 3 (Some ''S123'') ''paid''] 2 3 15000)
   \<and> (3::int) = sum_list (map num_tickets (filter (\<lambda>r. payment_status r = ''paid'') (registrations (Some two_rows))))
   \<and> (15000::int) = sum_list (map total_amount (filter (\<lambda>r. payment_status r = ''paid'') (registrations (Some two_rows))))
   \<and> db_after (get_admin demo_environment demo_services (Some ''Basic YWRtaW46YWRtaW4='') (Some two_rows))
       = Some two_rows"
  using admin_totals_paid_only [of demo_environment demo_services "Some ''Basic YWRtaW46YWRtaW4=''" "Some two_rows"]
    demo_listing
  by blast

text \<open>
  C9, as the code has it. \<^verbatim>\<open>ADMIN_USER || 'admin'\<close> and \<^verbatim>\<open>ADMIN_PASSWORD || 'admin'\<close>:
  each variable that is unset (or empty) is replaced by \<open>admin\<close> on its own. A request
  with the header \<open>Basic b\<close>, where \<open>b\<close> decodes to \<open>admin:admin\<close>, is answered 200 with
  the listing of the store's table when each of the two variables is unset or equal to
  \<open>admin\<close>; in particular when both are unset.
\<close>

theorem admin_default_credentials:
  assumes header: "h = Some (''Basic '' @ b)" "CHR '' '' \<notin> set b"
    and presented: "base64_ascii sv b = ''admin:admin''"
    and user: "\<not> truthy (ADMIN_USER env) \<or> ADMIN_USER env = Some ''admin''"
    and pass: "\<not> truthy (ADMIN_PASSWORD env) \<or> ADMIN_PASSWORD env = Some ''admin''"
  shows "\<exists>n k m. get_admin env sv h (Some t) =
           \<lparr>response = Response 200 [] (AdminHtml (select_all t) n k m),
            db_after = Some t, queries = []\<rparr>"
proof -
  have u: "or_else (ADMIN_USER env) ''admin'' = ''admin''"
    using user by (auto simp: or_else_def truthy_def split: option.splits)
  have p: "or_else (ADMIN_PASSWORD env) ''admin'' = ''admin''"
    using pass by (auto simp: or_else_def truthy_def split: option.splits)
  have "split_on CHR '' '' (template h) = [''Basic'', b]"
    using header(1) split_basic [OF header(2)] by (simp add: template_def)
  then have b: "at (split_on CHR '' '' (template h)) 1 = Some b"
    by (simp add: at_def)
  have t: "truthy h" "take 6 (template h) = ''Basic ''"
    using header by (simp_all add: truthy_def template_def)
  have c: "split_on CHR '':'' ''admin:admin'' = [''admin'', ''admin'']"
    by simp
  show ?thesis
    using u p b t presented c by (simp add: get_admin_def Let_def at_def)
qed

theorem admin_default_credentials_witness:
  "get_admin demo_environment demo_services (Some ''Basic YWRtaW46YWRtaW4='') (Some two_rows) =
     \<lparr>response = Response 200 []
        (AdminHtml [(jane ''June'' 2 None ''pending'')\<lparr>id_col := 2, created_at := 2000\<rparr>,
                    jane ''Jane'' 3 (Some ''S123'') ''paid''] 2 3 15000),
      db_after = Some two_rows, queries = []\<rparr>"
proof -
  have d: "base64_ascii demo_services ''YWRtaW46YWRtaW4='' = ''admin:admin''"
    by (simp add: demo_services_def decode_admin)
  have s: "CHR '' '' \<notin> set ''YWRtaW46YWRtaW4=''" by simp
  have h: "Some ''Basic YWRtaW46YWRtaW4='' = Some (''Basic '' @ ''YWRtaW46YWRtaW4='')" by simp
  have u: "\<not> truthy (ADMIN_USER demo_environment) \<or> ADMIN_USER demo_environment = Some ''admin''"
    and p: "\<not> truthy (ADMIN_PASSWORD demo_environment) \<or> ADMIN_PASSWORD demo_environment = Some ''admin''"
    by (simp_all add: demo_environment_def truthy_def)
  obtain n k m where e:
    "get_admin demo_environment demo_services (Some ''Basic YWRtaW46YWRtaW4='') (Some two_rows) =
       \<lparr>response = Response 200 [] (AdminHtml (select_all two_rows) n k m),
        db_after = Some two_rows, queries = []\<rparr>"
    using admin_default_credentials [OF h s d u p, of two_rows] by blast
  have "response (get_admin demo_environment demo_services (Some ''Basic YWRtaW46YWRtaW4='') (Some two_rows))
      = Response 200 [] (AdminHtml (select_all two_rows) n k m)"
    by (simp add: e)
  with demo_listing have "Response 200 [] (AdminHtml (select_all two_rows) n k m)
      = Response 200 [] (AdminHtml [(jane ''June'' 2 None ''pending'')\<lparr>id_col := 2, created_at := 2000\<rparr>,
                    jane ''Jane'' 3 (Some ''S123'') ''paid''] 2 3 15000)"
    by simp
  then show ?thesis
    using e by simp
qed

text \<open>
  C9 as stated ("\<open>ADMIN_USER\<close> or \<open>ADMIN_PASSWORD\<close> unset") fails: with \<open>ADMIN_USER\<close>
  unset and \<open>ADMIN_PASSWORD = s3cret\<close> the credentials \<open>admin:admin\<close> are refused with 401.
\<close>

theorem admin_rejects_default_password:
  "ADMIN_USER password_only = None
   \<and> base64_ascii demo_services ''YWRtaW46YWRtaW4='' = ''admin:admin''
   \<and> get_admin password_only demo_services (Some ''Basic YWRtaW46YWRtaW4='') (Some two_rows)
       = \<lparr>response = challenge ''Invalid credentials'', db_after = Some two_rows, queries = []\<rparr>"
  by (simp add: get_admin_def password_only_def demo_services_def or_else_def truthy_def
      template_def at_def decode_admin Let_def)

end
